theory Spec2Isabelle
  imports Main
begin

section \<open>Python values, errors and the environment\<close>

text \<open>
  The credential fields of \<^verbatim>\<open>AuthManager\<close> are annotated \<^verbatim>\<open>Optional[str]\<close>, but the
  Google refresh stores whatever JSON value the token endpoint sent under
  \<^verbatim>\<open>refresh_token\<close>. A field therefore holds a Python value. The code
  observes such a value in three ways only: \<^verbatim>\<open>is None\<close>, its truth value (\<^verbatim>\<open>or\<close>,
  \<^verbatim>\<open>if\<close>) and \<^verbatim>\<open>str()\<close>. \<open>POther t s\<close> stands for a number, an array or an object
  with truth value \<open>t\<close> and \<^verbatim>\<open>str()\<close> text \<open>s\<close>.
\<close>

datatype pyval = PNone | PStr string | PBool bool | POther bool string

fun py_truthy :: "pyval \<Rightarrow> bool" where
  "py_truthy PNone = False"
| "py_truthy (PStr s) = (s \<noteq> [])"
| "py_truthy (PBool b) = b"
| "py_truthy (POther t s) = t"

fun py_str :: "pyval \<Rightarrow> string" where
  "py_str PNone = ''None''"
| "py_str (PStr s) = s"
| "py_str (PBool b) = (if b then ''True'' else ''False'')"
| "py_str (POther t s) = s"

text \<open>Python's \<^verbatim>\<open>sub in s\<close> on strings: \<open>sub\<close> occurs as a contiguous piece of \<open>s\<close>.\<close>

fun py_in :: "string \<Rightarrow> string \<Rightarrow> bool" where
  "py_in sub [] = (sub = [])"
| "py_in sub (c # cs) = (take (length sub) (c # cs) = sub \<or> py_in sub cs)"

datatype error =
    AttributeError string
  | KeyError string
  | TypeError
  | HTTPError nat
  | JSONDecodeError
  | ConnectionError
  | OSError
  | UnboundLocalError

text \<open>
  What \<^verbatim>\<open>response.json()\<close> yields: a JSON object (a Python dict), or some other JSON
  value. A body that is not JSON at all is \<open>None\<close>.
\<close>

datatype json_top = JObject "string \<rightharpoonup> pyval" | JNonObject

record http_response =
  status_code :: nat
  body :: "json_top option"

text \<open>
  \<^verbatim>\<open>requests.Response.raise_for_status\<close> raises \<^verbatim>\<open>HTTPError\<close> exactly for the client
  and server error classes, \<^verbatim>\<open>400 <= status_code < 600\<close>; for every other status it
  returns.
\<close>

definition raise_for_status :: "http_response \<Rightarrow> error + unit" where
  "raise_for_status r =
     (if 400 \<le> status_code r \<and> status_code r < 600 then Inl (HTTPError (status_code r))
      else Inr ())"

definition response_json :: "http_response \<Rightarrow> error + json_top" where
  "response_json r = (case body r of None \<Rightarrow> Inl JSONDecodeError | Some j \<Rightarrow> Inr j)"

datatype auth = BasicAuth string string | NoAuth

datatype form_data = RawBody string | FormFields "string \<rightharpoonup> pyval"

record token_request =
  t_url :: string
  t_auth :: auth
  t_headers :: "string \<rightharpoonup> string"
  t_data :: form_data

record api_request =
  a_method :: string
  a_url :: string
  a_params :: "string option"
  a_headers :: "string \<rightharpoonup> string"
  a_data :: "string option"
  a_json :: "string option"

text \<open>
  The trace is a ghost field: it lists the calls of \<^verbatim>\<open>refresh_bearer_token\<close> and the
  HTTP requests in the order they happen. The program never reads it; the servers may
  (they answer a request knowing everything that happened before).
\<close>

datatype event = RefreshCall | TokenPost token_request | ApiCall api_request

fun is_http :: "event \<Rightarrow> bool" where
  "is_http RefreshCall = False"
| "is_http (TokenPost r) = True"
| "is_http (ApiCall r) = True"

fun is_refresh :: "event \<Rightarrow> bool" where
  "is_refresh RefreshCall = True"
| "is_refresh (TokenPost r) = False"
| "is_refresh (ApiCall r) = False"

fun is_api :: "event \<Rightarrow> bool" where
  "is_api RefreshCall = False"
| "is_api (TokenPost r) = False"
| "is_api (ApiCall r) = True"

text \<open>
  A file holds a JSON object, or something \<^verbatim>\<open>json.load(f)\<close> followed by \<^verbatim>\<open>d.get(key)\<close>
  fails on (text that is not JSON, or JSON that is not an object).
\<close>

datatype file_content = JsonDict "string \<rightharpoonup> pyval" | NotADict

text \<open>
  How a write of the cache file goes: it succeeds, or \<^verbatim>\<open>mkdir\<close>/\<^verbatim>\<open>open(path, "w")\<close>
  raises and the file is untouched, or \<^verbatim>\<open>json.dump\<close> raises after \<^verbatim>\<open>open\<close> truncated the
  file.
\<close>

datatype write_fault = NoFault | OpenFails | DumpFails

record world =
  cwd :: string
  cache_dir_probe :: "string \<Rightarrow> error + bool"
  files :: "string \<rightharpoonup> file_content"
  read_fails :: bool
  write_fault :: write_fault
  trace :: "event list"

record net =
  token_endpoint :: "event list \<Rightarrow> token_request \<Rightarrow> error + http_response"
  api_server :: "event list \<Rightarrow> api_request \<Rightarrow> error + http_response"

text \<open>\<^verbatim>\<open>with open(path) as f: d = json.load(f)\<close>, with \<open>d\<close> usable as a dict.\<close>

definition read_cache :: "world \<Rightarrow> string \<Rightarrow> error + (string \<rightharpoonup> pyval)" where
  "read_cache w p =
     (if read_fails w then Inl OSError
      else case files w p of
             None \<Rightarrow> Inl OSError
           | Some NotADict \<Rightarrow> Inl JSONDecodeError
           | Some (JsonDict d) \<Rightarrow> Inr d)"

text \<open>\<^verbatim>\<open>parent.mkdir(parents=True, exist_ok=True); with open(path, "w") as f: json.dump(creds, f)\<close>\<close>

definition write_cache :: "world \<Rightarrow> string \<Rightarrow> (string \<rightharpoonup> pyval) \<Rightarrow> (error + unit) \<times> world" where
  "write_cache w p creds =
     (case write_fault w of
        NoFault \<Rightarrow> (Inr (), w\<lparr>files := (files w)(p \<mapsto> JsonDict creds)\<rparr>)
      | OpenFails \<Rightarrow> (Inl OSError, w)
      | DumpFails \<Rightarrow> (Inl OSError, w\<lparr>files := (files w)(p \<mapsto> NotADict)\<rparr>))"

section \<open>AuthManager\<close>

text \<open>
  \<open>variant\<close> is the class of the object: \<^verbatim>\<open>AuthManager\<close>, \<^verbatim>\<open>GoogleAuthManager\<close> or
  \<^verbatim>\<open>HubSpotAuthManager\<close>. The record has the attributes \<^verbatim>\<open>__init__\<close> assigns. The two
  assignments \<^verbatim>\<open>self.initial_bearer_token = ...\<close> and \<^verbatim>\<open>self.initial_refresh_token = ...\<close>
  are commented out in the source, so the object has no such attributes and reading
  one raises \<^verbatim>\<open>AttributeError\<close>.
\<close>

datatype variant = Generic | Google | HubSpot

record auth_manager =
  variant :: variant
  token_url :: string
  client_id :: string
  client_secret :: string
  in_memory_bearer_token :: pyval
  in_memory_refresh_token :: pyval
  creds_path :: string
  can_write_to_cache :: bool

definition bearer_token_resp_key :: string where
  "bearer_token_resp_key = ''access_token''"

definition refresh_token_resp_key :: string where
  "refresh_token_resp_key = ''refresh_token''"

definition request_data_template :: string where
  "request_data_template = ''grant_type=refresh_token&refresh_token=''"

definition pants_sandbox_substr :: string where
  "pants_sandbox_substr = ''pants-sandbox''"

definition auth_headers :: "string \<rightharpoonup> string" where
  "auth_headers = [''Content-Type'' \<mapsto> ''application/x-www-form-urlencoded'']"

definition AuthManager_init ::
  "variant \<Rightarrow> string \<Rightarrow> string \<Rightarrow> string \<Rightarrow> string \<Rightarrow> string \<Rightarrow> string \<Rightarrow> world \<Rightarrow> auth_manager" where
  "AuthManager_init v turl cid csecret initial_bearer_token initial_refresh_token token_cache_file w =
     (let p = ''/shared-data/'' @ token_cache_file in
      \<lparr> variant = v, token_url = turl, client_id = cid, client_secret = csecret,
        in_memory_bearer_token = PStr initial_bearer_token,
        in_memory_refresh_token = PStr initial_refresh_token,
        creds_path = p,
        can_write_to_cache =
          (case cache_dir_probe w p of Inl e \<Rightarrow> False | Inr ok \<Rightarrow> ok) \<rparr>)"

definition GoogleAuthManager_init ::
  "string \<Rightarrow> string \<Rightarrow> string \<Rightarrow> string \<Rightarrow> string \<Rightarrow> world \<Rightarrow> auth_manager" where
  "GoogleAuthManager_init turl cid csecret initial_bearer_token initial_refresh_token w =
     AuthManager_init Google turl cid csecret initial_bearer_token initial_refresh_token
       ''google_auth.json'' w"

definition HubSpotAuthManager_init ::
  "string \<Rightarrow> string \<Rightarrow> string \<Rightarrow> string \<Rightarrow> string \<Rightarrow> world \<Rightarrow> auth_manager" where
  "HubSpotAuthManager_init turl cid csecret initial_bearer_token initial_refresh_token w =
     AuthManager_init HubSpot turl cid csecret initial_bearer_token initial_refresh_token
       ''hubspot_auth.json'' w"

text \<open>
  \<^verbatim>\<open>_get_cred_from_server_cache\<close>. The two key tests return before the disk is looked
  at; an exception while reading is caught and the function returns \<^verbatim>\<open>None\<close>.
\<close>

definition get_cred_from_server_cache :: "auth_manager \<Rightarrow> world \<Rightarrow> string \<Rightarrow> pyval" where
  "get_cred_from_server_cache m w key =
     (if key = bearer_token_resp_key then in_memory_bearer_token m
      else if key = refresh_token_resp_key then in_memory_refresh_token m
      else if can_write_to_cache m \<and> files w (creds_path m) \<noteq> None then
        (case read_cache w (creds_path m) of
           Inr d \<Rightarrow> (case d key of None \<Rightarrow> PNone | Some v \<Rightarrow> v)
         | Inl e \<Rightarrow> PNone)
      else PNone)"

text \<open>
  \<^verbatim>\<open>_update_server_creds_cache\<close>. The \<^verbatim>\<open>try\<close> around the write catches every
  \<^verbatim>\<open>Exception\<close>; the handler only prints.
\<close>

definition update_server_creds_cache ::
  "auth_manager \<Rightarrow> world \<Rightarrow> (string \<rightharpoonup> pyval) \<Rightarrow> (error + unit) \<times> auth_manager \<times> world" where
  "update_server_creds_cache m w creds =
     (let m1 = (case creds bearer_token_resp_key of
                  Some v \<Rightarrow> m\<lparr>in_memory_bearer_token := v\<rparr>
                | None \<Rightarrow> m);
          m2 = (case creds refresh_token_resp_key of
                  Some v \<Rightarrow> m1\<lparr>in_memory_refresh_token := v\<rparr>
                | None \<Rightarrow> m1)
      in if can_write_to_cache m2 then
           (case write_cache w (creds_path m2) creds of
              (Inr u, w') \<Rightarrow> (Inr (), m2, w')
            | (Inl e, w') \<Rightarrow> (Inr (), m2, w'))
         else (Inr (), m2, w))"

definition in_sandbox :: "world \<Rightarrow> bool" where
  "in_sandbox w = py_in pants_sandbox_substr (cwd w)"

text \<open>
  \<^verbatim>\<open>self._get_cred_from_server_cache(self.refresh_token_resp_key) or
  self.initial_refresh_token\<close>: the right operand is evaluated when the left one is
  falsy, and it is an attribute the object does not have.
\<close>

definition resolve_refresh_token :: "auth_manager \<Rightarrow> world \<Rightarrow> error + pyval" where
  "resolve_refresh_token m w =
     (let c = get_cred_from_server_cache m w refresh_token_resp_key in
      if py_truthy c then Inr c else Inl (AttributeError ''initial_refresh_token''))"

text \<open>\<^verbatim>\<open>requests.post\<close> to the token URL: the request is recorded, the endpoint answers.\<close>

definition post_token :: "net \<Rightarrow> world \<Rightarrow> token_request \<Rightarrow> (error + http_response) \<times> world" where
  "post_token n w req = (token_endpoint n (trace w) req, w\<lparr>trace := trace w @ [TokenPost req]\<rparr>)"

text \<open>
  The dict comprehension of the generic refresh: for each of the two keys whose value
  in the response is not \<^verbatim>\<open>None\<close>, the \<^verbatim>\<open>str()\<close> of that value.
\<close>

definition present_tokens :: "(string \<rightharpoonup> pyval) \<Rightarrow> (string \<rightharpoonup> pyval)" where
  "present_tokens resp =
     (let t1 = (case resp bearer_token_resp_key of
                  None \<Rightarrow> Map.empty
                | Some v \<Rightarrow> if v \<noteq> PNone then [bearer_token_resp_key \<mapsto> PStr (py_str v)]
                            else Map.empty)
      in case resp refresh_token_resp_key of
           None \<Rightarrow> t1
         | Some v \<Rightarrow> if v \<noteq> PNone then t1(refresh_token_resp_key \<mapsto> PStr (py_str v)) else t1)"

text \<open>\<^verbatim>\<open>AuthManager.refresh_bearer_token\<close>.\<close>

definition refresh_generic ::
  "net \<Rightarrow> auth_manager \<Rightarrow> world \<Rightarrow> (error + unit) \<times> auth_manager \<times> world" where
  "refresh_generic n m w0 =
     (let w = w0\<lparr>trace := trace w0 @ [RefreshCall]\<rparr> in
      if in_sandbox w then (Inr (), m, w)
      else case resolve_refresh_token m w of
        Inl e \<Rightarrow> (Inl e, m, w)
      | Inr refresh_token \<Rightarrow>
          let request_data = request_data_template @ py_str refresh_token;
              (ans, w1) = post_token n w
                 \<lparr> t_url = token_url m, t_auth = BasicAuth (client_id m) (client_secret m),
                   t_headers = auth_headers, t_data = RawBody request_data \<rparr>
          in case ans of
               Inl e \<Rightarrow> (Inl e, m, w1)
             | Inr response \<Rightarrow>
                 (case raise_for_status response of
                    Inl e \<Rightarrow> (Inl e, m, w1)
                  | Inr u \<Rightarrow>
                      (case response_json response of
                         Inl e \<Rightarrow> (Inl e, m, w1)
                       | Inr JNonObject \<Rightarrow> (Inl (AttributeError ''get''), m, w1)
                       | Inr (JObject resp) \<Rightarrow>
                           update_server_creds_cache m w1 (present_tokens resp))))"

text \<open>\<^verbatim>\<open>GoogleAuthManager.refresh_bearer_token\<close>.\<close>

definition refresh_google ::
  "net \<Rightarrow> auth_manager \<Rightarrow> world \<Rightarrow> (error + unit) \<times> auth_manager \<times> world" where
  "refresh_google n m w0 =
     (let w = w0\<lparr>trace := trace w0 @ [RefreshCall]\<rparr> in
      if in_sandbox w then (Inr (), m, w)
      else case resolve_refresh_token m w of
        Inl e \<Rightarrow> (Inl e, m, w)
      | Inr refresh_token \<Rightarrow>
          let payload = [''grant_type'' \<mapsto> PStr ''refresh_token'',
                         ''refresh_token'' \<mapsto> refresh_token,
                         ''client_id'' \<mapsto> PStr (client_id m),
                         ''client_secret'' \<mapsto> PStr (client_secret m)];
              (ans, w1) = post_token n w
                 \<lparr> t_url = token_url m, t_auth = NoAuth,
                   t_headers = auth_headers, t_data = FormFields payload \<rparr>
          in case ans of
               Inl e \<Rightarrow> (Inl e, m, w1)
             | Inr response \<Rightarrow>
                 (case raise_for_status response of
                    Inl e \<Rightarrow> (Inl e, m, w1)
                  | Inr u \<Rightarrow>
                      (case response_json response of
                         Inl e \<Rightarrow> (Inl e, m, w1)
                       | Inr JNonObject \<Rightarrow> (Inl TypeError, m, w1)
                       | Inr (JObject resp) \<Rightarrow>
                           (case resp bearer_token_resp_key of
                              None \<Rightarrow> (Inl (KeyError bearer_token_resp_key), m, w1)
                            | Some a \<Rightarrow>
                                let new_access_token = PStr (py_str a);
                                    new_refresh_token =
                                      (case resp refresh_token_resp_key of
                                         None \<Rightarrow> refresh_token
                                       | Some r \<Rightarrow> r)
                                in update_server_creds_cache m w1
                                     [bearer_token_resp_key \<mapsto> new_access_token,
                                      refresh_token_resp_key \<mapsto> new_refresh_token]))))"

text \<open>\<^verbatim>\<open>HubSpotAuthManager.refresh_bearer_token\<close>.\<close>

definition refresh_hubspot ::
  "net \<Rightarrow> auth_manager \<Rightarrow> world \<Rightarrow> (error + unit) \<times> auth_manager \<times> world" where
  "refresh_hubspot n m w0 =
     (let w = w0\<lparr>trace := trace w0 @ [RefreshCall]\<rparr> in
      if in_sandbox w then (Inr (), m, w)
      else case resolve_refresh_token m w of
        Inl e \<Rightarrow> (Inl e, m, w)
      | Inr refresh_token \<Rightarrow>
          let payload = [''grant_type'' \<mapsto> PStr ''refresh_token'',
                         ''refresh_token'' \<mapsto> refresh_token,
                         ''client_id'' \<mapsto> PStr (client_id m),
                         ''client_secret'' \<mapsto> PStr (client_secret m)];
              (ans, w1) = post_token n w
                 \<lparr> t_url = token_url m, t_auth = NoAuth,
                   t_headers = auth_headers, t_data = FormFields payload \<rparr>
          in case ans of
               Inl e \<Rightarrow> (Inl e, m, w1)
             | Inr response \<Rightarrow>
                 (case raise_for_status response of
                    Inl e \<Rightarrow> (Inl e, m, w1)
                  | Inr u \<Rightarrow>
                      (case response_json response of
                         Inl e \<Rightarrow> (Inl e, m, w1)
                       | Inr JNonObject \<Rightarrow> (Inl TypeError, m, w1)
                       | Inr (JObject resp) \<Rightarrow>
                           (case resp bearer_token_resp_key of
                              None \<Rightarrow> (Inl (KeyError bearer_token_resp_key), m, w1)
                            | Some a \<Rightarrow>
                                update_server_creds_cache m w1
                                  [refresh_token_resp_key \<mapsto> refresh_token,
                                   bearer_token_resp_key \<mapsto> PStr (py_str a)]))))"

text \<open>The method call \<^verbatim>\<open>m.refresh_bearer_token()\<close>, dispatched on the class.\<close>

definition refresh_bearer_token ::
  "net \<Rightarrow> auth_manager \<Rightarrow> world \<Rightarrow> (error + unit) \<times> auth_manager \<times> world" where
  "refresh_bearer_token n m w =
     (case variant m of
        Generic \<Rightarrow> refresh_generic n m w
      | Google \<Rightarrow> refresh_google n m w
      | HubSpot \<Rightarrow> refresh_hubspot n m w)"

text \<open>
  \<^verbatim>\<open>get_bearer_token\<close>. Its last line reads \<^verbatim>\<open>self.initial_bearer_token\<close>, which the
  object does not have.
\<close>

definition get_bearer_token :: "auth_manager \<Rightarrow> world \<Rightarrow> error + pyval" where
  "get_bearer_token m w =
     (if py_truthy (in_memory_bearer_token m) then Inr (in_memory_bearer_token m)
      else let from_srv = get_cred_from_server_cache m w bearer_token_resp_key in
           if py_truthy from_srv then Inr from_srv
           else Inl (AttributeError ''initial_bearer_token''))"

text \<open>The refresh token a token request carries, for the two form-encoded variants.\<close>

definition sent_refresh_token :: "token_request \<Rightarrow> pyval option" where
  "sent_refresh_token req =
     (case t_data req of
        FormFields f \<Rightarrow> f ''refresh_token''
      | RawBody s \<Rightarrow> None)"

section \<open>GoogleClient\<close>

record google_client =
  base_url :: string
  auth_manager :: auth_manager
  headers :: "string \<rightharpoonup> string"

definition GoogleClient_init ::
  "string \<Rightarrow> string \<Rightarrow> string \<Rightarrow> string \<Rightarrow> string \<Rightarrow> string \<Rightarrow> world \<Rightarrow> google_client" where
  "GoogleClient_init burl turl cid csecret initial_bearer_token initial_refresh_token w =
     \<lparr> base_url = burl,
       auth_manager =
         GoogleAuthManager_init turl cid csecret initial_bearer_token initial_refresh_token w,
       headers = [''Content-Type'' \<mapsto> ''application/json''] \<rparr>"

text \<open>
  The payload of a request: absent, bytes (sent as \<^verbatim>\<open>data\<close>) or a dict (sent as
  \<^verbatim>\<open>json\<close>).
\<close>

datatype payload = NoPayload | BytesPayload string | DictPayload string

fun payload_data :: "payload \<Rightarrow> string option" where
  "payload_data (BytesPayload b) = Some b"
| "payload_data p = None"

fun payload_json :: "payload \<Rightarrow> string option" where
  "payload_json (DictPayload d) = Some d"
| "payload_json p = None"

text \<open>
  \<^verbatim>\<open>requests.request(method=..., url=..., params=..., headers=..., data=..., json=...)\<close>:
  the request as it goes out.
\<close>

definition build_request ::
  "string \<Rightarrow> string \<Rightarrow> string option \<Rightarrow> payload \<Rightarrow> (string \<rightharpoonup> string) \<Rightarrow> api_request" where
  "build_request method url params pl hs =
     \<lparr> a_method = method, a_url = url, a_params = params, a_headers = hs,
       a_data = payload_data pl, a_json = payload_json pl \<rparr>"

text \<open>
  The loop \<^verbatim>\<open>for _ in range(k)\<close> of \<^verbatim>\<open>_request_with_reauth\<close>, with \<open>k\<close> iterations
  left and \<open>resp0\<close> the value of the variable \<^verbatim>\<open>response\<close> (unbound before the first
  iteration).
\<close>

fun reauth_loop ::
  "net \<Rightarrow> string \<Rightarrow> string \<Rightarrow> string option \<Rightarrow> payload \<Rightarrow> nat \<Rightarrow> http_response option \<Rightarrow>
   google_client \<Rightarrow> world \<Rightarrow> (error + http_response option) \<times> google_client \<times> world" where
  "reauth_loop n method url params pl 0 resp0 c w = (Inr resp0, c, w)"
| "reauth_loop n method url params pl (Suc k) resp0 c w =
     (case get_bearer_token (auth_manager c) w of
        Inl e \<Rightarrow> (Inl e, c, w)
      | Inr tok \<Rightarrow>
          let c1 = c\<lparr>headers := (headers c)(''Authorization'' \<mapsto> ''Bearer '' @ py_str tok)\<rparr>;
              req = build_request method url params pl (headers c1);
              w1 = w\<lparr>trace := trace w @ [ApiCall req]\<rparr>
          in case api_server n (trace w) req of
               Inl e \<Rightarrow> (Inl e, c1, w1)
             | Inr response \<Rightarrow>
                 if status_code response = 401 then
                   (case refresh_bearer_token n (auth_manager c1) w1 of
                      (Inl e, m', w2) \<Rightarrow> (Inl e, c1\<lparr>auth_manager := m'\<rparr>, w2)
                    | (Inr u, m', w2) \<Rightarrow>
                        reauth_loop n method url params pl k (Some response)
                          (c1\<lparr>auth_manager := m'\<rparr>) w2)
                 else (Inr (Some response), c1, w1))"

text \<open>\<^verbatim>\<open>GoogleClient._request_with_reauth\<close>: two iterations, then \<^verbatim>\<open>return response\<close>.\<close>

definition request_with_reauth ::
  "net \<Rightarrow> string \<Rightarrow> string \<Rightarrow> string option \<Rightarrow> payload \<Rightarrow> google_client \<Rightarrow> world \<Rightarrow>
   (error + http_response) \<times> google_client \<times> world" where
  "request_with_reauth n method url params pl c w =
     (case reauth_loop n method url params pl 2 None c w of
        (Inl e, c', w') \<Rightarrow> (Inl e, c', w')
      | (Inr None, c', w') \<Rightarrow> (Inl UnboundLocalError, c', w')
      | (Inr (Some response), c', w') \<Rightarrow> (Inr response, c', w'))"

text \<open>
  The request an attempt sends when the client is \<open>c\<close> and \<^verbatim>\<open>get_bearer_token()\<close>
  gave \<open>tok\<close>: the client's headers with \<^verbatim>\<open>Authorization\<close> set to the bearer token.
\<close>

definition authorized_request ::
  "string \<Rightarrow> string \<Rightarrow> string option \<Rightarrow> payload \<Rightarrow> google_client \<Rightarrow> pyval \<Rightarrow> api_request" where
  "authorized_request method url params pl c tok =
     build_request method url params pl
       ((headers c)(''Authorization'' \<mapsto> ''Bearer '' @ py_str tok))"

section \<open>Concrete environments\<close>

text \<open>
  A world outside the sandbox: the cache directory passes the writability probe, the
  Google cache file holds a pair from an earlier run, and opening it for writing fails.
\<close>

definition app_world :: world where
  "app_world =
     \<lparr> cwd = ''/srv/app'',
       cache_dir_probe = (\<lambda>p. Inr True),
       files = [''/shared-data/google_auth.json'' \<mapsto>
                  JsonDict [''access_token'' \<mapsto> PStr ''A0'', ''refresh_token'' \<mapsto> PStr ''R0'']],
       read_fails = False,
       write_fault = OpenFails,
       trace = [] \<rparr>"

definition sandbox_world :: world where
  "sandbox_world = app_world\<lparr>cwd := ''/tmp/pants-sandbox-Xy12/run''\<rparr>"

definition json_response :: "nat \<Rightarrow> (string \<rightharpoonup> pyval) \<Rightarrow> http_response" where
  "json_response st d = \<lparr> status_code = st, body = Some (JObject d) \<rparr>"

text \<open>Servers that give the same answer to every request.\<close>

definition fixed_net :: "http_response \<Rightarrow> http_response \<Rightarrow> net" where
  "fixed_net token_response api_response =
     \<lparr> token_endpoint = (\<lambda>t req. Inr token_response),
       api_server = (\<lambda>t req. Inr api_response) \<rparr>"

text \<open>
  An API server that accepts exactly the bearer token \<open>good\<close> and answers 401 to every
  other request.
\<close>

definition checking_net :: "http_response \<Rightarrow> string \<Rightarrow> net" where
  "checking_net token_response good =
     \<lparr> token_endpoint = (\<lambda>t req. Inr token_response),
       api_server = (\<lambda>t req.
          if a_headers req ''Authorization'' = Some (''Bearer '' @ good)
          then Inr (json_response 200 Map.empty)
          else Inr (json_response 401 Map.empty)) \<rparr>"

definition demo_manager :: "variant \<Rightarrow> auth_manager" where
  "demo_manager v =
     AuthManager_init v ''https://t.example/token'' ''id'' ''secret'' ''B1'' ''R1'' ''demo.json''
       app_world"

definition demo_client :: google_client where
  "demo_client =
     GoogleClient_init ''https://www.googleapis.com'' ''https://t.example/token'' ''id'' ''secret''
       ''B1'' ''R1'' app_world"




definition null_refresh_net :: net where
  "null_refresh_net =
     fixed_net (json_response 200 [''access_token'' \<mapsto> PStr ''A2'', ''refresh_token'' \<mapsto> PNone])
       (json_response 200 Map.empty)"

text \<open>
  Two API servers for the demo client, whose initial bearer token is \<^verbatim>\<open>B1\<close>: one accepts
  it, the other accepts only the token \<^verbatim>\<open>A2\<close> that a refresh brings.
\<close>

definition accepting_net :: net where
  "accepting_net = checking_net (json_response 200 [''access_token'' \<mapsto> PStr ''A2'']) ''B1''"

definition renewing_net :: net where
  "renewing_net = checking_net (json_response 200 [''access_token'' \<mapsto> PStr ''A2'']) ''A2''"

text \<open>
  A \<^verbatim>\<open>GET\<close> of the file list through the demo client: the whole call against a given
  network, the request it sends with a given bearer token, and the refresh that follows
  a first 401.
\<close>

definition demo_call :: "net \<Rightarrow> (error + http_response) \<times> google_client \<times> world" where
  "demo_call n =
     request_with_reauth n ''GET'' ''https://www.googleapis.com/drive/v3/files'' None NoPayload
       demo_client app_world"

definition demo_request :: "string \<Rightarrow> api_request" where
  "demo_request tok =
     authorized_request ''GET'' ''https://www.googleapis.com/drive/v3/files'' None NoPayload
       demo_client (PStr tok)"

text \<open>
  Two more networks for the demo client: one whose API server answers 401 to everything
  while refreshes succeed, one whose token endpoint answers 403 as well.
\<close>

definition expired_net :: net where
  "expired_net =
     fixed_net (json_response 200 [''access_token'' \<mapsto> PStr ''A2'']) (json_response 401 Map.empty)"

definition refusing_net :: net where
  "refusing_net = fixed_net (json_response 403 Map.empty) (json_response 401 Map.empty)"

text \<open>
  The refresh that follows the first 401 of the demo call, and the one that follows a
  second 401.
\<close>

definition demo_refresh :: "net \<Rightarrow> (error + unit) \<times> auth_manager \<times> world" where
  "demo_refresh n =
     refresh_bearer_token n (auth_manager demo_client)
       (app_world\<lparr>trace := trace app_world @ [ApiCall (demo_request ''B1'')]\<rparr>)"

definition demo_second_refresh :: "net \<Rightarrow> (error + unit) \<times> auth_manager \<times> world" where
  "demo_second_refresh n =
     refresh_bearer_token n (fst (snd (demo_refresh n)))
       ((snd (snd (demo_refresh n)))
          \<lparr>trace := trace (snd (snd (demo_refresh n))) @ [ApiCall (demo_request ''A2'')]\<rparr>)"


section \<open>Basic facts\<close>

lemmas refresh_defs = refresh_bearer_token_def refresh_generic_def refresh_google_def
  refresh_hubspot_def

lemma two_iterations: "(2::nat) = Suc (Suc 0)" by simp

lemmas eval_defs =
  app_world_def sandbox_world_def json_response_def fixed_net_def checking_net_def
  demo_manager_def demo_client_def GoogleClient_init_def GoogleAuthManager_init_def
  HubSpotAuthManager_init_def AuthManager_init_def
  in_sandbox_def pants_sandbox_substr_def bearer_token_resp_key_def refresh_token_resp_key_def
  request_data_template_def auth_headers_def
  get_cred_from_server_cache_def update_server_creds_cache_def read_cache_def write_cache_def
  resolve_refresh_token_def post_token_def present_tokens_def raise_for_status_def
  response_json_def refresh_bearer_token_def refresh_generic_def refresh_google_def
  refresh_hubspot_def get_bearer_token_def sent_refresh_token_def
  build_request_def authorized_request_def request_with_reauth_def two_iterations Let_def

lemma in_sandbox_trace [simp]: "in_sandbox (w\<lparr>trace := t\<rparr>) = in_sandbox w"
  by (simp add: in_sandbox_def)


lemma sandbox_is_sandbox: "in_sandbox sandbox_world"
  by (simp add: eval_defs)

lemma update_result:
  "update_server_creds_cache m w creds = (r, m', w') \<Longrightarrow>
     r = Inr () \<and> trace w' = trace w \<and>
     in_memory_bearer_token m' =
         (case creds bearer_token_resp_key of Some v \<Rightarrow> v | None \<Rightarrow> in_memory_bearer_token m) \<and>
     in_memory_refresh_token m' =
         (case creds refresh_token_resp_key of Some v \<Rightarrow> v | None \<Rightarrow> in_memory_refresh_token m)"
  by (auto simp add: update_server_creds_cache_def write_cache_def Let_def split: option.splits prod.splits sum.splits write_fault.splits if_splits)

lemma update_proj [simp]:
  "fst (update_server_creds_cache m w creds) = Inr ()"
  "in_memory_bearer_token (fst (snd (update_server_creds_cache m w creds))) =
     (case creds bearer_token_resp_key of Some v \<Rightarrow> v | None \<Rightarrow> in_memory_bearer_token m)"
  "in_memory_refresh_token (fst (snd (update_server_creds_cache m w creds))) =
     (case creds refresh_token_resp_key of Some v \<Rightarrow> v | None \<Rightarrow> in_memory_refresh_token m)"
  "trace (snd (snd (update_server_creds_cache m w creds))) = trace w"
proof -
  obtain r m' w' where e: "update_server_creds_cache m w creds = (r, m', w')"
    by (cases "update_server_creds_cache m w creds") auto
  from update_result [OF e] e
  show "fst (update_server_creds_cache m w creds) = Inr ()"
  "in_memory_bearer_token (fst (snd (update_server_creds_cache m w creds))) =
     (case creds bearer_token_resp_key of Some v \<Rightarrow> v | None \<Rightarrow> in_memory_bearer_token m)"
  "in_memory_refresh_token (fst (snd (update_server_creds_cache m w creds))) =
     (case creds refresh_token_resp_key of Some v \<Rightarrow> v | None \<Rightarrow> in_memory_refresh_token m)"
  "trace (snd (snd (update_server_creds_cache m w creds))) = trace w"
    by simp_all
qed

lemma refresh_trace:
  "refresh_bearer_token n m w = (r, m', w') \<Longrightarrow>
     filter is_refresh (trace w') = filter is_refresh (trace w) @ [RefreshCall] \<and>
     filter is_api (trace w') = filter is_api (trace w)"
  by (cases "variant m")
     (auto simp: refresh_defs Let_def post_token_def 
        split: sum.split_asm json_top.split_asm option.split_asm if_split_asm
        dest!: update_result)

lemma triple_eq: "fst x = a \<Longrightarrow> x = (a, fst (snd x), snd (snd x))"
  by (cases x) auto




lemma update_files [simp]:
  "files (snd (snd (update_server_creds_cache m w creds))) =
     (if can_write_to_cache m \<and> write_fault w = NoFault
        then (files w)(creds_path m \<mapsto> JsonDict creds)
      else if can_write_to_cache m \<and> write_fault w = DumpFails
        then (files w)(creds_path m \<mapsto> NotADict)
      else files w)"
  by (cases "write_fault w")
     (auto simp: update_server_creds_cache_def write_cache_def Let_def split: option.splits)

lemma demo_refresh_eval:
  "fst (demo_refresh renewing_net) = Inr ()"
  "get_bearer_token (fst (snd (demo_refresh renewing_net))) (snd (snd (demo_refresh renewing_net)))
     = Inr (PStr ''A2'')"
  "fst (demo_refresh expired_net) = Inr ()"
  "get_bearer_token (fst (snd (demo_refresh expired_net))) (snd (snd (demo_refresh expired_net)))
     = Inr (PStr ''A2'')"
  "fst (demo_refresh refusing_net) = Inl (HTTPError 403)"
  "fst (demo_second_refresh expired_net) = Inr ()"
  by (simp_all add: demo_second_refresh_def demo_refresh_def demo_request_def renewing_net_def
      expired_net_def refusing_net_def eval_defs)

lemma demo_api_eval:
  "api_server accepting_net t (demo_request ''B1'') = Inr (json_response 200 Map.empty)"
  "api_server renewing_net t (demo_request ''B1'') = Inr (json_response 401 Map.empty)"
  "api_server renewing_net t (demo_request ''A2'') = Inr (json_response 200 Map.empty)"
  "api_server expired_net t (demo_request tok) = Inr (json_response 401 Map.empty)"
  "api_server refusing_net t (demo_request tok) = Inr (json_response 401 Map.empty)"
  by (simp_all add: demo_request_def accepting_net_def renewing_net_def expired_net_def
      refusing_net_def checking_net_def fixed_net_def authorized_request_def build_request_def)

lemma demo_status:
  "status_code (json_response 200 Map.empty) \<noteq> 401"
  "status_code (json_response 401 Map.empty) = 401"
  by (simp_all add: json_response_def)

lemma demo_bearer: "get_bearer_token (auth_manager demo_client) app_world = Inr (PStr ''B1'')"
  by (simp add: eval_defs)

section \<open>The claims\<close>

text \<open>
  Claim C1. \<^verbatim>\<open>get_bearer_token()\<close> is claimed to fall back to the initial bearer token
  and never to fail. A manager constructed with the empty string as initial bearer
  token has a falsy in-memory bearer token; the call then reaches
  \<^verbatim>\<open>return self.initial_bearer_token\<close> and raises \<^verbatim>\<open>AttributeError\<close>, whatever the class,
  the other arguments and the state of the disk.
\<close>

theorem get_bearer_token_empty_raises:
  "get_bearer_token (AuthManager_init v turl cid csecret [] rt f w0) w
     = Inl (AttributeError ''initial_bearer_token'')"
  by (simp add: eval_defs)

text \<open>
  Claim C2, as stated, fails: when both responses are 401, \<^verbatim>\<open>refresh_bearer_token()\<close>
  is called after each of them, twice in all, before the second response is returned.
\<close>

theorem double_401_refreshes_twice:
  "status_code (json_response 401 Map.empty) = 401 \<and>
   fst (request_with_reauth
          (fixed_net (json_response 200 [''access_token'' \<mapsto> PStr ''A2'']) (json_response 401 Map.empty))
          ''GET'' ''https://www.googleapis.com/drive/v3/files'' None NoPayload demo_client app_world)
     = Inr (json_response 401 Map.empty) \<and>
   filter is_refresh (trace (snd (snd (request_with_reauth
          (fixed_net (json_response 200 [''access_token'' \<mapsto> PStr ''A2'']) (json_response 401 Map.empty))
          ''GET'' ''https://www.googleapis.com/drive/v3/files'' None NoPayload demo_client app_world))))
     = [RefreshCall, RefreshCall]"
  by (simp add: eval_defs)

text \<open>
  Claim C2, amended. Let the first attempt send its request with the bearer token
  \<open>tok1\<close> and receive \<open>r1\<close>. If \<open>r1\<close> is not a 401 it is returned at once: the trace gains
  that one request and nothing else, and the manager is untouched. If \<open>r1\<close> is a 401,
  \<^verbatim>\<open>refresh_bearer_token()\<close> is called. If that call raises, its error is what the caller
  gets, after one request and one refresh call. If it completes, leaving a manager
  whose bearer token is \<open>tok2\<close>, exactly one more request goes out, carrying \<open>tok2\<close>, and
  receives \<open>r2\<close>. If \<open>r2\<close> is not a 401 it is returned, after exactly one refresh call. If
  \<open>r2\<close> is a 401 again, the refresh is called a second time, two calls in all, and no
  third request is sent: \<open>r2\<close> is returned when that second refresh completes, and its
  error is raised when it does not.
\<close>

theorem reauth_retry_protocol:
  assumes g1: "get_bearer_token (auth_manager c) w = Inr tok1"
    and a1: "api_server n (trace w) (authorized_request meth url params pl c tok1) = Inr r1"
  shows "(status_code r1 \<noteq> 401 \<longrightarrow>
            request_with_reauth n meth url params pl c w =
              (Inr r1,
               c\<lparr>headers := (headers c)(''Authorization'' \<mapsto> ''Bearer '' @ py_str tok1)\<rparr>,
               w\<lparr>trace := trace w @ [ApiCall (authorized_request meth url params pl c tok1)]\<rparr>))
       \<and> (status_code r1 = 401 \<longrightarrow>
            (\<forall>e m' w2.
               refresh_bearer_token n (auth_manager c)
                 (w\<lparr>trace := trace w @ [ApiCall (authorized_request meth url params pl c tok1)]\<rparr>)
                 = (Inl e, m', w2)
               \<longrightarrow>
               request_with_reauth n meth url params pl c w =
                 (Inl e,
                  c\<lparr>headers := (headers c)(''Authorization'' \<mapsto> ''Bearer '' @ py_str tok1),
                    auth_manager := m'\<rparr>,
                  w2) \<and>
               filter is_refresh (trace w2) = filter is_refresh (trace w) @ [RefreshCall] \<and>
               filter is_api (trace w2) =
                 filter is_api (trace w) @
                   [ApiCall (authorized_request meth url params pl c tok1)]) \<and>
            (\<forall>m' w2 tok2 r2.
               refresh_bearer_token n (auth_manager c)
                 (w\<lparr>trace := trace w @ [ApiCall (authorized_request meth url params pl c tok1)]\<rparr>)
                 = (Inr (), m', w2) \<and>
               get_bearer_token m' w2 = Inr tok2 \<and>
               api_server n (trace w2) (authorized_request meth url params pl c tok2) = Inr r2
               \<longrightarrow>
               filter is_refresh (trace w2) = filter is_refresh (trace w) @ [RefreshCall] \<and>
               filter is_api (trace w2) =
                 filter is_api (trace w) @
                   [ApiCall (authorized_request meth url params pl c tok1)] \<and>
               (status_code r2 \<noteq> 401 \<longrightarrow>
                  request_with_reauth n meth url params pl c w =
                    (Inr r2,
                     c\<lparr>headers := (headers c)(''Authorization'' \<mapsto> ''Bearer '' @ py_str tok2),
                       auth_manager := m'\<rparr>,
                     w2\<lparr>trace := trace w2 @
                          [ApiCall (authorized_request meth url params pl c tok2)]\<rparr>)) \<and>
               (status_code r2 = 401 \<longrightarrow>
                  (\<forall>res m'' w4.
                     refresh_bearer_token n m'
                       (w2\<lparr>trace := trace w2 @
                            [ApiCall (authorized_request meth url params pl c tok2)]\<rparr>)
                       = (res, m'', w4)
                     \<longrightarrow>
                     request_with_reauth n meth url params pl c w =
                       ((case res of Inl e \<Rightarrow> Inl e | Inr u \<Rightarrow> Inr r2),
                        c\<lparr>headers := (headers c)(''Authorization'' \<mapsto> ''Bearer '' @ py_str tok2),
                          auth_manager := m''\<rparr>,
                        w4) \<and>
                     filter is_refresh (trace w4) =
                       filter is_refresh (trace w) @ [RefreshCall, RefreshCall] \<and>
                     filter is_api (trace w4) =
                       filter is_api (trace w) @
                         [ApiCall (authorized_request meth url params pl c tok1),
                          ApiCall (authorized_request meth url params pl c tok2)]))))"
proof (intro conjI impI allI)
  assume "status_code r1 \<noteq> 401"
  with g1 a1 show "request_with_reauth n meth url params pl c w =
              (Inr r1,
               c\<lparr>headers := (headers c)(''Authorization'' \<mapsto> ''Bearer '' @ py_str tok1)\<rparr>,
               w\<lparr>trace := trace w @ [ApiCall (authorized_request meth url params pl c tok1)]\<rparr>)"
    by (simp add: request_with_reauth_def two_iterations authorized_request_def Let_def)
next
  fix e :: error and m' :: auth_manager and w2 :: world
  let ?req1 = "authorized_request meth url params pl c tok1"
  assume s1: "status_code r1 = 401"
    and rf: "refresh_bearer_token n (auth_manager c)
                 (w\<lparr>trace := trace w @ [ApiCall ?req1]\<rparr>) = (Inl e, m', w2)"
  from g1 a1 s1 rf
  show "request_with_reauth n meth url params pl c w =
          (Inl e,
           c\<lparr>headers := (headers c)(''Authorization'' \<mapsto> ''Bearer '' @ py_str tok1),
             auth_manager := m'\<rparr>, w2)"
    by (simp add: request_with_reauth_def two_iterations authorized_request_def Let_def)
  from refresh_trace [OF rf]
  show "filter is_refresh (trace w2) = filter is_refresh (trace w) @ [RefreshCall]"
    and "filter is_api (trace w2) = filter is_api (trace w) @ [ApiCall ?req1]"
    by simp_all
next
  fix m' :: auth_manager and w2 :: world and tok2 :: pyval and r2 :: http_response
  let ?req1 = "authorized_request meth url params pl c tok1"
  let ?req2 = "authorized_request meth url params pl c tok2"
  let ?c2 = "c\<lparr>headers := (headers c)(''Authorization'' \<mapsto> ''Bearer '' @ py_str tok2),
               auth_manager := m'\<rparr>"
  let ?w3 = "w2\<lparr>trace := trace w2 @ [ApiCall ?req2]\<rparr>"
  assume s1: "status_code r1 = 401"
  assume h: "refresh_bearer_token n (auth_manager c)
                 (w\<lparr>trace := trace w @ [ApiCall ?req1]\<rparr>) = (Inr (), m', w2) \<and>
               get_bearer_token m' w2 = Inr tok2 \<and>
               api_server n (trace w2) ?req2 = Inr r2"
  then have rf: "refresh_bearer_token n (auth_manager c)
                 (w\<lparr>trace := trace w @ [ApiCall ?req1]\<rparr>) = (Inr (), m', w2)"
    and g2: "get_bearer_token m' w2 = Inr tok2"
    and a2: "api_server n (trace w2) ?req2 = Inr r2" by simp_all
  from refresh_trace [OF rf]
  have t2: "filter is_refresh (trace w2) = filter is_refresh (trace w) @ [RefreshCall]"
           "filter is_api (trace w2) = filter is_api (trace w) @ [ApiCall ?req1]"
    by simp_all
  have step: "request_with_reauth n meth url params pl c w =
      (if status_code r2 = 401 then
         (case refresh_bearer_token n m' ?w3 of
            (Inl e, m'', w4) \<Rightarrow> (Inl e, ?c2\<lparr>auth_manager := m''\<rparr>, w4)
          | (Inr u, m'', w4) \<Rightarrow> (Inr r2, ?c2\<lparr>auth_manager := m''\<rparr>, w4))
       else (Inr r2, ?c2, ?w3))"
    using g1 a1 s1 rf g2 a2
    by (simp add: request_with_reauth_def two_iterations authorized_request_def Let_def
        split: sum.splits prod.splits)
  show "filter is_refresh (trace w2) = filter is_refresh (trace w) @ [RefreshCall]"
    by (rule t2(1))
  show "filter is_api (trace w2) = filter is_api (trace w) @ [ApiCall ?req1]"
    by (rule t2(2))
  {
    assume "status_code r2 \<noteq> 401"
    with step show "request_with_reauth n meth url params pl c w = (Inr r2, ?c2, ?w3)"
      by simp
  }
  {
    fix res :: "error + unit" and m'' :: auth_manager and w4 :: world
    assume s2: "status_code r2 = 401"
      and r3: "refresh_bearer_token n m' ?w3 = (res, m'', w4)"
    from step s2 r3
    show "request_with_reauth n meth url params pl c w =
            ((case res of Inl e \<Rightarrow> Inl e | Inr u \<Rightarrow> Inr r2),
             c\<lparr>headers := (headers c)(''Authorization'' \<mapsto> ''Bearer '' @ py_str tok2),
               auth_manager := m''\<rparr>, w4)"
      by (cases res) simp_all
    from refresh_trace [OF r3] t2
    show "filter is_refresh (trace w4) = filter is_refresh (trace w) @ [RefreshCall, RefreshCall]"
      and "filter is_api (trace w4) = filter is_api (trace w) @ [ApiCall ?req1, ApiCall ?req2]"
      by simp_all
  }
qed

theorem reauth_retry_protocol_witness:
  "get_bearer_token (auth_manager demo_client) app_world = Inr (PStr ''B1'') \<and>
   api_server accepting_net (trace app_world) (demo_request ''B1'')
     = Inr (json_response 200 Map.empty) \<and>
   status_code (json_response 200 Map.empty) \<noteq> 401 \<and>
   fst (demo_call accepting_net) = Inr (json_response 200 Map.empty) \<and>
   trace (snd (snd (demo_call accepting_net))) = trace app_world @ [ApiCall (demo_request ''B1'')] \<and>
   api_server refusing_net (trace app_world) (demo_request ''B1'')
     = Inr (json_response 401 Map.empty) \<and>
   status_code (json_response 401 Map.empty) = 401 \<and>
   fst (demo_refresh refusing_net) = Inl (HTTPError 403) \<and>
   fst (demo_call refusing_net) = Inl (HTTPError 403) \<and>
   filter is_refresh (trace (snd (snd (demo_call refusing_net)))) =
     filter is_refresh (trace app_world) @ [RefreshCall] \<and>
   filter is_api (trace (snd (snd (demo_call refusing_net)))) =
     filter is_api (trace app_world) @ [ApiCall (demo_request ''B1'')] \<and>
   api_server renewing_net (trace app_world) (demo_request ''B1'')
     = Inr (json_response 401 Map.empty) \<and>
   fst (demo_refresh renewing_net) = Inr () \<and>
   get_bearer_token (fst (snd (demo_refresh renewing_net))) (snd (snd (demo_refresh renewing_net)))
     = Inr (PStr ''A2'') \<and>
   api_server renewing_net (trace (snd (snd (demo_refresh renewing_net)))) (demo_request ''A2'')
     = Inr (json_response 200 Map.empty) \<and>
   fst (demo_call renewing_net) = Inr (json_response 200 Map.empty) \<and>
   filter is_refresh (trace (snd (snd (demo_call renewing_net)))) =
     filter is_refresh (trace app_world) @ [RefreshCall] \<and>
   filter is_api (trace (snd (snd (demo_call renewing_net)))) =
     filter is_api (trace app_world) @ [ApiCall (demo_request ''B1''), ApiCall (demo_request ''A2'')] \<and>
   api_server expired_net (trace app_world) (demo_request ''B1'')
     = Inr (json_response 401 Map.empty) \<and>
   fst (demo_refresh expired_net) = Inr () \<and>
   get_bearer_token (fst (snd (demo_refresh expired_net))) (snd (snd (demo_refresh expired_net)))
     = Inr (PStr ''A2'') \<and>
   api_server expired_net (trace (snd (snd (demo_refresh expired_net)))) (demo_request ''A2'')
     = Inr (json_response 401 Map.empty) \<and>
   fst (demo_second_refresh expired_net) = Inr () \<and>
   fst (demo_call expired_net) = Inr (json_response 401 Map.empty) \<and>
   filter is_refresh (trace (snd (snd (demo_call expired_net)))) =
     filter is_refresh (trace app_world) @ [RefreshCall, RefreshCall] \<and>
   filter is_api (trace (snd (snd (demo_call expired_net)))) =
     filter is_api (trace app_world) @ [ApiCall (demo_request ''B1''), ApiCall (demo_request ''A2'')]"
proof -
  note U = demo_request_def demo_refresh_def demo_second_refresh_def demo_call_def
  note g1 = demo_bearer
  note s1 = demo_status(1) and t1 = demo_status(2)
  note api = demo_api_eval [unfolded U]
  note T = reauth_retry_protocol [where c = demo_client and w = app_world and meth = "''GET''"
      and url = "''https://www.googleapis.com/drive/v3/files''" and params = None
      and pl = NoPayload and ?tok1.0 = "PStr ''B1''", OF g1]
  note A = T [OF api(1), THEN conjunct1, rule_format, OF s1]
  have A': "fst (demo_call accepting_net) = Inr (json_response 200 Map.empty) \<and>
    trace (snd (snd (demo_call accepting_net))) = trace app_world @ [ApiCall (demo_request ''B1'')]"
    using A unfolding U by simp
  note rfB = triple_eq [OF demo_refresh_eval(5), unfolded U]
  note B = T [OF api(5), THEN conjunct2, rule_format, OF t1, THEN conjunct1,
      rule_format, OF rfB]
  have B': "fst (demo_call refusing_net) = Inl (HTTPError 403) \<and>
   filter is_refresh (trace (snd (snd (demo_call refusing_net)))) =
     filter is_refresh (trace app_world) @ [RefreshCall] \<and>
   filter is_api (trace (snd (snd (demo_call refusing_net)))) =
     filter is_api (trace app_world) @ [ApiCall (demo_request ''B1'')]"
    using B unfolding U by simp
  note rfC = triple_eq [OF demo_refresh_eval(1), unfolded U]
  note hC = conjI [OF rfC conjI [OF demo_refresh_eval(2) [unfolded U] api(3)]]
  note C = T [OF api(2), THEN conjunct2, rule_format, OF t1, THEN conjunct2,
      rule_format, OF hC]
  have C': "fst (demo_call renewing_net) = Inr (json_response 200 Map.empty) \<and>
   filter is_refresh (trace (snd (snd (demo_call renewing_net)))) =
     filter is_refresh (trace app_world) @ [RefreshCall] \<and>
   filter is_api (trace (snd (snd (demo_call renewing_net)))) =
     filter is_api (trace app_world) @ [ApiCall (demo_request ''B1''), ApiCall (demo_request ''A2'')]"
    using C s1 unfolding U by simp
  note rfD = triple_eq [OF demo_refresh_eval(3), unfolded U]
  note hD = conjI [OF rfD conjI [OF demo_refresh_eval(4) [unfolded U]
        api(4) [where tok = "''A2''"]]]
  note D0 = T [OF api(4), THEN conjunct2, rule_format, OF t1, THEN conjunct2,
      rule_format, OF hD]
  note rfE = triple_eq [OF demo_refresh_eval(6), unfolded U]
  note D = D0 [THEN conjunct2, THEN conjunct2, THEN conjunct2, rule_format, OF t1 rfE]
  have D': "fst (demo_call expired_net) = Inr (json_response 401 Map.empty) \<and>
   filter is_refresh (trace (snd (snd (demo_call expired_net)))) =
     filter is_refresh (trace app_world) @ [RefreshCall, RefreshCall] \<and>
   filter is_api (trace (snd (snd (demo_call expired_net)))) =
     filter is_api (trace app_world) @ [ApiCall (demo_request ''B1''), ApiCall (demo_request ''A2'')]"
    using D unfolding U by simp
  from g1 s1 t1 A' B' C' D' demo_api_eval demo_refresh_eval show ?thesis by blast
qed

text \<open>
  Claim C3. For the refresh key with no in-memory value, writability confirmed and a
  cache file on disk, \<^verbatim>\<open>_get_cred_from_server_cache\<close> is claimed to return the file's
  value. A Google manager is constructed over a writable cache directory whose file
  holds the refresh token \<^verbatim>\<open>R0\<close>; a refresh whose response carries
  \<^verbatim>\<open>"refresh_token": null\<close> stores \<^verbatim>\<open>None\<close> in memory, and its write of the file fails and
  is swallowed. The lookup then returns \<^verbatim>\<open>None\<close>: the \<^verbatim>\<open>elif\<close> branch returns the in-memory
  field before the disk is looked at.
\<close>

theorem disk_value_not_returned:
  "fst (refresh_bearer_token null_refresh_net (auth_manager demo_client) app_world) = Inr () \<and>
   in_memory_refresh_token
     (fst (snd (refresh_bearer_token null_refresh_net (auth_manager demo_client) app_world))) = PNone \<and>
   can_write_to_cache
     (fst (snd (refresh_bearer_token null_refresh_net (auth_manager demo_client) app_world))) \<and>
   (case files (snd (snd (refresh_bearer_token null_refresh_net (auth_manager demo_client) app_world)))
           (creds_path (fst (snd (refresh_bearer_token null_refresh_net (auth_manager demo_client) app_world)))) of
      Some (JsonDict d) \<Rightarrow> d refresh_token_resp_key
    | Some NotADict \<Rightarrow> None
    | None \<Rightarrow> None) = Some (PStr ''R0'') \<and>
   get_cred_from_server_cache
     (fst (snd (refresh_bearer_token null_refresh_net (auth_manager demo_client) app_world)))
     (snd (snd (refresh_bearer_token null_refresh_net (auth_manager demo_client) app_world)))
     refresh_token_resp_key = PNone"
  by (simp add: eval_defs null_refresh_net_def)

text \<open>
  Claim C4. With the sandbox flag false, a manager whose store holds no usable refresh
  token is claimed to send the initial refresh token. A manager of any class
  constructed with the empty string as initial refresh token evaluates
  \<^verbatim>\<open>self.initial_refresh_token\<close>, raises \<^verbatim>\<open>AttributeError\<close> and sends nothing.
\<close>

theorem refresh_without_initial_token_raises:
  "fst (refresh_bearer_token n (AuthManager_init v turl cid csecret bt [] f w0) app_world)
     = Inl (AttributeError ''initial_refresh_token'') \<and>
   filter is_http (trace (snd (snd
     (refresh_bearer_token n (AuthManager_init v turl cid csecret bt [] f w0) app_world)))) = []"
  by (cases v) (simp_all add: eval_defs)




text \<open>
  Claim C6. In the sandbox, the refresh of every class returns at once: no error, the
  manager and the files unchanged, and the trace gains the call itself and no HTTP
  request.
\<close>

theorem sandbox_refresh_is_noop:
  "in_sandbox w \<Longrightarrow>
   (case refresh_bearer_token n m w of
      (r, m', w') \<Rightarrow> r = Inr () \<and> m' = m \<and> files w' = files w \<and> cwd w' = cwd w \<and>
         trace w' = trace w @ [RefreshCall])"
  by (cases "variant m") (simp_all add: refresh_defs Let_def)

theorem sandbox_refresh_is_noop_witness:
  "in_sandbox sandbox_world \<and>
   (case refresh_bearer_token (fixed_net (json_response 200 Map.empty) (json_response 200 Map.empty))
           (demo_manager Google) sandbox_world of
      (r, m', w') \<Rightarrow> r = Inr () \<and> m' = demo_manager Google \<and> files w' = files sandbox_world \<and>
         cwd w' = cwd sandbox_world \<and> trace w' = trace sandbox_world @ [RefreshCall])"
  using sandbox_is_sandbox
    sandbox_refresh_is_noop [OF sandbox_is_sandbox,
      where n = "fixed_net (json_response 200 Map.empty) (json_response 200 Map.empty)"
        and m = "demo_manager Google"]
  by (rule conjI)





text \<open>
  Claim C9. \<^verbatim>\<open>_update_server_creds_cache\<close> never raises, whatever happens to the write
  of the cache file, and each in-memory field whose key is in \<open>creds\<close> holds the new
  value afterwards (a field whose key is absent keeps its value).
\<close>

theorem update_never_raises:
  "case update_server_creds_cache m w creds of
     (r, m', w') \<Rightarrow>
       r = Inr () \<and>
       in_memory_bearer_token m' =
         (case creds bearer_token_resp_key of Some v \<Rightarrow> v | None \<Rightarrow> in_memory_bearer_token m) \<and>
       in_memory_refresh_token m' =
         (case creds refresh_token_resp_key of Some v \<Rightarrow> v | None \<Rightarrow> in_memory_refresh_token m)"
  by (simp add: update_server_creds_cache_def Let_def split: option.splits prod.splits sum.splits)

theorem update_never_raises_witness:
  "case update_server_creds_cache (demo_manager Google) app_world
          [''access_token'' \<mapsto> PStr ''A2''] of
     (r, m', w') \<Rightarrow>
       r = Inr () \<and>
       in_memory_bearer_token m' =
         (case [''access_token'' \<mapsto> PStr ''A2''] bearer_token_resp_key of
            Some v \<Rightarrow> v | None \<Rightarrow> in_memory_bearer_token (demo_manager Google)) \<and>
       in_memory_refresh_token m' =
         (case [''access_token'' \<mapsto> PStr ''A2''] refresh_token_resp_key of
            Some v \<Rightarrow> v | None \<Rightarrow> in_memory_refresh_token (demo_manager Google))"
  using update_never_raises [where m = "demo_manager Google" and w = app_world
      and creds = "[''access_token'' \<mapsto> PStr ''A2'']"] .




end
